theory Spec2Isabelle
  imports Complex_Main
begin

section \<open>Validation utilities\<close>

text \<open>
  Python values that can reach \<open>validate_txid\<close>: the function tests
  \<open>isinstance(txid, str)\<close>, so the argument is modelled as a small tagged union.
  A Python \<open>str\<close> is modelled as a \<open>string\<close>, one \<open>char\<close> per code point
  (code points below 256).
\<close>

datatype pyval = PyNone | PyInt int | PyStr string

text \<open>\<open>str.isspace\<close> on the code points below 256.\<close>

definition py_isspace :: "char \<Rightarrow> bool" where
  "py_isspace c = (of_char c \<in> set [9, 10, 11, 12, 13, 28, 29, 30, 31, 32, 133, 160 :: nat])"

text \<open>\<open>str.strip()\<close>: drops leading and trailing whitespace.\<close>

definition py_strip :: "string \<Rightarrow> string" where
  "py_strip s = rev (dropWhile py_isspace (rev (dropWhile py_isspace s)))"

definition hex_chars :: string where
  "hex_chars = ''0123456789abcdefABCDEF''"

definition base58_chars :: string where
  "base58_chars = ''123456789ABCDEFGHJKLMNPQRSTUVWXYZabcdefghijkmnopqrstuvwxyz''"

definition all_in :: "string \<Rightarrow> string \<Rightarrow> bool" where
  "all_in alphabet s = list_all (\<lambda>c. c \<in> set alphabet) s"

definition validate_txid :: "pyval \<Rightarrow> string \<Rightarrow> bool" where
  "validate_txid txid token =
     (case txid of
        PyNone \<Rightarrow> False
      | PyInt n \<Rightarrow> False
      | PyStr raw \<Rightarrow>
          if raw = [] then False
          else
            (let t = py_strip raw in
             if token \<in> set [''BTC''] then
               length t = 64 \<and> all_in hex_chars t
             else if token \<in> set [''ETH'', ''USDT'', ''BNB'', ''MATIC'', ''LINK''] then
               length t = 66 \<and> take 2 t = ''0x'' \<and> all_in hex_chars (drop 2 t)
             else if token \<in> set [''SOL''] then
               length t = 88 \<and> all_in base58_chars t
             else if token \<in> set [''ADA''] then
               length t = 64 \<and> all_in hex_chars t
             else False))"

definition get_token_confirmation_requirement :: "string \<Rightarrow> int" where
  "get_token_confirmation_requirement token =
     (case map_of
        [(''BTC'', 2), (''ETH'', 6), (''USDT'', 6), (''BNB'', 3),
         (''MATIC'', 3), (''SOL'', 1), (''ADA'', 5), (''LINK'', 6)] token of
        Some n \<Rightarrow> n
      | None \<Rightarrow> 3)"

section \<open>Conversation state\<close>

text \<open>
  The per-user dictionaries of the bot. An entry of \<open>user_withdrawal_states\<close> is a
  Python dict whose keys vary with the step that wrote it, so every key is optional;
  reading a missing key with \<open>d[k]\<close> raises \<open>KeyError\<close>, \<open>d.get(k)\<close> gives \<open>None\<close>.
  Amounts are Python floats; they are modelled as reals, so that arithmetic on amounts
  is exact in the model where the code rounds.
\<close>

record wstate =
  ws_token :: "string option"
  ws_step :: "string option"
  ws_withdrawal_token :: "string option"
  ws_withdrawal_amount :: "real option"
  ws_fee_amount :: "real option"
  ws_net_amount :: "real option"
  ws_fee_verified :: "bool option"
  ws_fee_payment_id :: "int option"
  ws_payment_id :: "int option"
  ws_txid :: "string option"

definition empty_wstate :: wstate where
  "empty_wstate =
     \<lparr>ws_token = None, ws_step = None, ws_withdrawal_token = None,
      ws_withdrawal_amount = None, ws_fee_amount = None, ws_net_amount = None,
      ws_fee_verified = None, ws_fee_payment_id = None, ws_payment_id = None,
      ws_txid = None\<rparr>"

type_synonym wstates = "int \<rightharpoonup> wstate"

record admin_op =
  op_action :: string
  op_step :: string

record session =
  users_inputting_trader_id :: "int set"
  users_connecting_wallet :: "int \<rightharpoonup> string"
  user_withdrawal_states :: wstates
  user_states :: "int \<rightharpoonup> string"
  admin_balance_operations :: "int \<rightharpoonup> admin_op"
  admin_ban_operations :: "int \<rightharpoonup> admin_op"

record message =
  chat_id :: int
  from_user_id :: int
  msg_text :: string

text \<open>
  \<open>ADMIN_USER_ID\<close> comes from the configuration module, which is not part of the
  sources; it is a parameter of the model (\<open>None\<close> when it is not configured).
\<close>

definition is_admin :: "int option \<Rightarrow> int \<Rightarrow> bool" where
  "is_admin admin_user_id user_id = (admin_user_id \<noteq> None \<and> Some user_id = admin_user_id)"

section \<open>Conversational input router\<close>

text \<open>
  What \<open>handle_text_input\<close> does with a message: the handler it calls (with chat id,
  user id and the stripped text) or the generic reply it sends.
\<close>

datatype dispatch =
    TraderIdInput int int string
  | WalletCredentials int int string string
  | AdminBalanceInput int int string
  | AdminBanInput int int string
  | TxidInput int int string
  | WithdrawalAddressInput int int string
  | SupportMessage int int string
  | BugReport int int string
  | DefaultReply int

definition handle_text_input ::
  "int option \<Rightarrow> session \<Rightarrow> message \<Rightarrow> session \<times> dispatch list" where
  "handle_text_input admin_user_id s m =
     (let user_id = from_user_id m; text = py_strip (msg_text m); chat = chat_id m in
      if user_id \<in> users_inputting_trader_id s then
        (s\<lparr>users_inputting_trader_id := users_inputting_trader_id s - {user_id}\<rparr>,
         [TraderIdInput chat user_id text])
      else
        (case users_connecting_wallet s user_id of
           Some wallet_type \<Rightarrow>
             (s\<lparr>users_connecting_wallet := (users_connecting_wallet s)(user_id := None)\<rparr>,
              [WalletCredentials chat user_id text wallet_type])
         | None \<Rightarrow>
             if admin_balance_operations s user_id \<noteq> None then
               (if is_admin admin_user_id user_id then (s, [AdminBalanceInput chat user_id text])
                else
                  (s\<lparr>admin_balance_operations :=
                       (admin_balance_operations s)(user_id := None)\<rparr>, []))
             else if admin_ban_operations s user_id \<noteq> None then
               (if is_admin admin_user_id user_id then (s, [AdminBanInput chat user_id text])
                else
                  (s\<lparr>admin_ban_operations := (admin_ban_operations s)(user_id := None)\<rparr>, []))
             else
               (case user_withdrawal_states s user_id of
                  Some user_state \<Rightarrow>
                    if ws_step user_state = Some ''entering_txid'' then
                      (s, [TxidInput chat user_id text])
                    else (s, [WithdrawalAddressInput chat user_id text])
                | None \<Rightarrow>
                    (case user_states s user_id of
                       Some user_state \<Rightarrow>
                         if user_state = ''waiting_for_support_message'' then
                           (s\<lparr>user_states := (user_states s)(user_id := None)\<rparr>,
                            [SupportMessage chat user_id text])
                         else if user_state = ''waiting_for_bug_report'' then
                           (s\<lparr>user_states := (user_states s)(user_id := None)\<rparr>,
                            [BugReport chat user_id text])
                         else (s, [DefaultReply chat])
                     | None \<Rightarrow> (s, [DefaultReply chat])))))"

text \<open>
  The routing rule in the words of the specification: six state buckets in a fixed
  priority order, the first one that matches decides, and the generic reply is sent
  when none matches.
\<close>

datatype bucket =
  TraderBucket | WalletBucket | AdminBalanceBucket | AdminBanBucket | WithdrawalBucket
  | SupportBugBucket

definition bucket_priority :: "bucket list" where
  "bucket_priority =
     [TraderBucket, WalletBucket, AdminBalanceBucket, AdminBanBucket, WithdrawalBucket,
      SupportBugBucket]"

fun bucket_matches :: "session \<Rightarrow> int \<Rightarrow> bucket \<Rightarrow> bool" where
  "bucket_matches s u TraderBucket = (u \<in> users_inputting_trader_id s)"
| "bucket_matches s u WalletBucket = (users_connecting_wallet s u \<noteq> None)"
| "bucket_matches s u AdminBalanceBucket = (admin_balance_operations s u \<noteq> None)"
| "bucket_matches s u AdminBanBucket = (admin_ban_operations s u \<noteq> None)"
| "bucket_matches s u WithdrawalBucket = (user_withdrawal_states s u \<noteq> None)"
| "bucket_matches s u SupportBugBucket =
     (user_states s u = Some ''waiting_for_support_message''
      \<or> user_states s u = Some ''waiting_for_bug_report'')"

definition first_matching_bucket :: "session \<Rightarrow> int \<Rightarrow> bucket option" where
  "first_matching_bucket s u = find (bucket_matches s u) bucket_priority"

fun bucket_dispatch ::
  "int option \<Rightarrow> session \<Rightarrow> int \<Rightarrow> int \<Rightarrow> string \<Rightarrow> bucket \<Rightarrow> dispatch list" where
  "bucket_dispatch a s c u t TraderBucket = [TraderIdInput c u t]"
| "bucket_dispatch a s c u t WalletBucket =
     (case users_connecting_wallet s u of
        Some wallet_type \<Rightarrow> [WalletCredentials c u t wallet_type]
      | None \<Rightarrow> [])"
| "bucket_dispatch a s c u t AdminBalanceBucket =
     (if is_admin a u then [AdminBalanceInput c u t] else [])"
| "bucket_dispatch a s c u t AdminBanBucket =
     (if is_admin a u then [AdminBanInput c u t] else [])"
| "bucket_dispatch a s c u t WithdrawalBucket =
     (if map_option ws_step (user_withdrawal_states s u) = Some (Some ''entering_txid'')
      then [TxidInput c u t] else [WithdrawalAddressInput c u t])"
| "bucket_dispatch a s c u t SupportBugBucket =
     (if user_states s u = Some ''waiting_for_support_message''
      then [SupportMessage c u t] else [BugReport c u t])"

definition route_by_priority :: "int option \<Rightarrow> session \<Rightarrow> message \<Rightarrow> dispatch list" where
  "route_by_priority a s m =
     (case first_matching_bucket s (from_user_id m) of
        None \<Rightarrow> [DefaultReply (chat_id m)]
      | Some b \<Rightarrow>
          bucket_dispatch a s (chat_id m) (from_user_id m) (py_strip (msg_text m)) b)"

section \<open>Persistent store\<close>

text \<open>
  The records kept by the database layer. The fee-payment ledger and the withdrawal
  table are lists in creation order; the portfolio maps a user and an asset to the
  quantity held.
\<close>

datatype fp_status = Pending | Verified | Rejected

record fee_payment =
  fp_id :: int
  fp_user_id :: int
  fp_token :: string
  fp_expected_amount :: real
  fp_txid :: string
  fp_network :: string
  fp_withdrawal_token :: string
  fp_withdrawal_amount :: real
  fp_confirmations :: int
  fp_status :: fp_status

record withdrawal =
  wd_id :: int
  wd_user_id :: int
  wd_asset :: string
  wd_gross_amount :: real
  wd_fee_amount :: real
  wd_fee_asset :: string
  wd_fee_payment_id :: int
  wd_to_address :: string

record db =
  fee_payments :: "fee_payment list"
  withdrawals :: "withdrawal list"
  portfolio :: "int \<Rightarrow> string \<rightharpoonup> real"

record payment_data =
  pd_user_id :: int
  pd_token :: string
  pd_expected_amount :: real
  pd_txid :: string
  pd_network :: string
  pd_withdrawal_token :: string
  pd_withdrawal_amount :: real

definition get_fee_payment_token :: "string \<Rightarrow> string" where
  "get_fee_payment_token withdrawal_token =
     (case map_of
        [(''BTC'', ''BTC''), (''ETH'', ''ETH''), (''SOL'', ''SOL''), (''USDT'', ''ETH''),
         (''BNB'', ''BNB''), (''MATIC'', ''ETH''), (''ADA'', ''ADA''), (''LINK'', ''ETH'')]
        withdrawal_token of
        Some t \<Rightarrow> t
      | None \<Rightarrow> ''ETH'')"

text \<open>
  Modelled from the spec: \<open>db.get_fee_payment_by_txid\<close> (class \<open>Database\<close> of
  \<open>bot.database\<close> is not part of the sources). The ledger's \<open>find_by_txid\<close>:
  the record whose transaction id equals the given one, compared exactly.
\<close>

definition get_fee_payment_by_txid :: "db \<Rightarrow> string \<Rightarrow> fee_payment option" where
  "get_fee_payment_by_txid d txid = find (\<lambda>p. fp_txid p = txid) (fee_payments d)"

text \<open>
  Modelled from the spec: \<open>db.get_fee_payment_by_id\<close> (\<open>bot.database\<close> is not part
  of the sources). The ledger's \<open>get\<close>.
\<close>

definition get_fee_payment_by_id :: "db \<Rightarrow> int \<Rightarrow> fee_payment option" where
  "get_fee_payment_by_id d pid = find (\<lambda>p. fp_id p = pid) (fee_payments d)"

text \<open>
  Modelled from the spec: \<open>db.create_fee_payment\<close> (\<open>bot.database\<close> is not part of
  the sources). The ledger's \<open>create\<close>: rejected when the transaction id is already
  present, otherwise a new record with status pending and no confirmations. Identifiers
  are positive and fresh.
\<close>

definition fresh_payment_id :: "db \<Rightarrow> int" where
  "fresh_payment_id d = fold max (map fp_id (fee_payments d)) 0 + 1"

definition create_fee_payment :: "db \<Rightarrow> payment_data \<Rightarrow> db \<times> int option" where
  "create_fee_payment d pd =
     (if get_fee_payment_by_txid d (pd_txid pd) \<noteq> None then (d, None)
      else
        (let new_id = fresh_payment_id d;
             p = \<lparr>fp_id = new_id, fp_user_id = pd_user_id pd, fp_token = pd_token pd,
                  fp_expected_amount = pd_expected_amount pd, fp_txid = pd_txid pd,
                  fp_network = pd_network pd, fp_withdrawal_token = pd_withdrawal_token pd,
                  fp_withdrawal_amount = pd_withdrawal_amount pd, fp_confirmations = 0,
                  fp_status = Pending\<rparr>
         in (d\<lparr>fee_payments := fee_payments d @ [p]\<rparr>, Some new_id)))"

text \<open>
  Modelled from the spec: \<open>db.get_user_verified_fee_payment\<close> (\<open>bot.database\<close> is
  not part of the sources). The ledger's \<open>find_latest_verified_unconsumed\<close>: the most
  recent payment of the user in the asset whose status is verified and which no
  withdrawal references.
\<close>

definition consumed :: "db \<Rightarrow> int \<Rightarrow> bool" where
  "consumed d pid = (pid \<in> set (map wd_fee_payment_id (withdrawals d)))"

definition verified_unconsumed :: "db \<Rightarrow> int \<Rightarrow> string \<Rightarrow> fee_payment \<Rightarrow> bool" where
  "verified_unconsumed d user_id token p =
     (fp_user_id p = user_id \<and> fp_token p = token \<and> fp_status p = Verified
      \<and> \<not> consumed d (fp_id p))"

definition get_user_verified_fee_payment ::
  "db \<Rightarrow> int \<Rightarrow> string \<Rightarrow> fee_payment option" where
  "get_user_verified_fee_payment d user_id token =
     find (verified_unconsumed d user_id token) (rev (fee_payments d))"

text \<open>
  Modelled from the spec: \<open>db.update_portfolio\<close> (\<open>bot.database\<close> is not part of the
  sources). The portfolio store's debit and credit: the signed quantity is added to the
  holding of the asset; the price argument only feeds the average cost, which the model
  does not keep.
\<close>

definition update_portfolio :: "db \<Rightarrow> int \<Rightarrow> string \<Rightarrow> real \<Rightarrow> real \<Rightarrow> db" where
  "update_portfolio d user_id token amount price =
     d\<lparr>portfolio := (portfolio d)
          (user_id := (portfolio d user_id)
             (token \<mapsto> (case portfolio d user_id token of None \<Rightarrow> 0 | Some q \<Rightarrow> q) + amount))\<rparr>"

text \<open>The result dictionary of the withdrawal gate.\<close>

datatype withdrawal_result =
    Refused string string
  | Created int real string real string

text \<open>
  Modelled from the spec: \<open>db.atomic_create_verified_withdrawal\<close> (\<open>bot.database\<close>
  is not part of the sources). The contract of the atomic withdrawal gate: without a
  verified, unconsumed fee payment of the user in the fee asset of the withdrawn asset
  it returns a rejection with the reason \<open>no_verified_fee_payment\<close> and changes
  nothing; a gross amount above the holding is rejected too; otherwise the fee is 10% of
  the gross amount, the withdrawal record is created referencing the fee payment, and
  the result carries the withdrawal id, the fee and its asset, the net amount and the
  transaction id of the consumed payment. Step 4 of the contract, the debit of the
  portfolio, is in the sources: the caller makes it with \<open>db.update_portfolio\<close> right
  after the gate has returned success, passing the whole holding it read before the
  call and noting that this sets the amount to 0, so the holding is still whole when the
  gate returns. The debit is therefore not made a second time here.
\<close>

definition fresh_withdrawal_id :: "db \<Rightarrow> int" where
  "fresh_withdrawal_id d = fold max (map wd_id (withdrawals d)) 0 + 1"

definition holding :: "db \<Rightarrow> int \<Rightarrow> string \<Rightarrow> real" where
  "holding d user_id token = (case portfolio d user_id token of None \<Rightarrow> 0 | Some q \<Rightarrow> q)"

definition atomic_create_verified_withdrawal ::
  "db \<Rightarrow> int \<Rightarrow> string \<Rightarrow> string \<Rightarrow> real \<Rightarrow> string \<Rightarrow> db \<times> withdrawal_result" where
  "atomic_create_verified_withdrawal d user_id withdrawal_type withdrawal_token
       withdrawal_amount to_address =
     (case get_user_verified_fee_payment d user_id (get_fee_payment_token withdrawal_token) of
        None \<Rightarrow>
          (d, Refused ''no_verified_fee_payment''
                ''No verified fee payment found for this withdrawal'')
      | Some p \<Rightarrow>
          if holding d user_id withdrawal_token < withdrawal_amount then
            (d, Refused ''insufficient_holding'' ''Amount exceeds the current holding'')
          else
            (let fee = withdrawal_amount * (10 / 100);
                 net = withdrawal_amount - fee;
                 new_id = fresh_withdrawal_id d;
                 w = \<lparr>wd_id = new_id, wd_user_id = user_id, wd_asset = withdrawal_token,
                      wd_gross_amount = withdrawal_amount, wd_fee_amount = fee,
                      wd_fee_asset = fp_token p, wd_fee_payment_id = fp_id p,
                      wd_to_address = to_address\<rparr>
             in (d\<lparr>withdrawals := withdrawals d @ [w]\<rparr>,
                 Created new_id fee (fp_token p) net (fp_txid p))))"

section \<open>Withdrawal conversation handlers\<close>

text \<open>The messages the handlers send, one constructor per message text of the source.\<close>

datatype reply =
    InvalidTxidFormat string
  | TxidAlreadyUsed string
  | FeePaymentSystemError string
  | VerificationInProgress string string int int
  | TxidGenericError
  | InvalidAddressFormat string
  | TokenNotInPortfolio
  | WithdrawalSecurityBlock string string real string
  | WithdrawalApproved int string real real string real string string
  | WithdrawalGenericError
  | CallbackSecurityBlock
  | EnterAddressPrompt string
  | NoTokensToWithdraw
  | WithdrawalPolicyNotice

text \<open>The calls a handler makes to the two mutating operations of the withdrawal path.\<close>

datatype db_call =
    GateCall int string string real string
  | UpdatePortfolioCall int string real real

text \<open>
  \<open>WITHDRAWAL_FEE_ADDRESSES\<close> comes from the configuration module; the table is a
  parameter, mapping an asset to its dictionary of settings.
\<close>

definition fee_network_of :: "(string \<rightharpoonup> (string \<rightharpoonup> string)) \<Rightarrow> string \<Rightarrow> string" where
  "fee_network_of fee_addresses token =
     (case fee_addresses token of
        None \<Rightarrow> token @ '' Network''
      | Some cfg \<Rightarrow> (case cfg ''network'' of None \<Rightarrow> token @ '' Network'' | Some n \<Rightarrow> n))"

text \<open>
  \<open>process_txid_input\<close>. The result is the store, the conversation states, the
  messages sent and the confirmation tasks started (payment id and required
  confirmations). A missing key of the conversation state raises inside the
  \<open>try\<close> block, before anything is changed, and ends in the generic error message.
\<close>

definition process_txid_input ::
  "(string \<rightharpoonup> (string \<rightharpoonup> string)) \<Rightarrow> db \<Rightarrow> wstates \<Rightarrow> int \<Rightarrow> int \<Rightarrow> string
   \<Rightarrow> db \<times> wstates \<times> reply list \<times> (int \<times> int) list" where
  "process_txid_input fee_addresses d states chat user_id txid =
     (case states user_id of
        None \<Rightarrow> (d, states, [], [])
      | Some withdrawal_state \<Rightarrow>
          if ws_step withdrawal_state \<noteq> Some ''entering_txid'' then (d, states, [], [])
          else
            (case (ws_token withdrawal_state, ws_withdrawal_token withdrawal_state,
                   ws_withdrawal_amount withdrawal_state, ws_fee_amount withdrawal_state) of
               (Some token, Some withdrawal_token, Some withdrawal_amount, Some fee_amount) \<Rightarrow>
                 if \<not> validate_txid (PyStr txid) token then
                   (d, states, [InvalidTxidFormat token], [])
                 else if get_fee_payment_by_txid d txid \<noteq> None then
                   (d, states, [TxidAlreadyUsed token], [])
                 else
                   (let fee_network = fee_network_of fee_addresses token;
                        pd = \<lparr>pd_user_id = user_id, pd_token = token,
                              pd_expected_amount = fee_amount, pd_txid = txid,
                              pd_network = fee_network,
                              pd_withdrawal_token = withdrawal_token,
                              pd_withdrawal_amount = withdrawal_amount\<rparr>;
                        (d', created) = create_fee_payment d pd
                    in case created of
                         None \<Rightarrow> (d', states, [FeePaymentSystemError token], [])
                       | Some payment_id \<Rightarrow>
                           if payment_id = 0 then
                             (d', states, [FeePaymentSystemError token], [])
                           else
                             (let required_confirmations =
                                    get_token_confirmation_requirement token;
                                  states' = states(user_id \<mapsto>
                                    withdrawal_state\<lparr>ws_step := Some ''verifying'',
                                                      ws_payment_id := Some payment_id,
                                                      ws_txid := Some txid\<rparr>)
                              in (d', states',
                                  [VerificationInProgress txid token payment_id
                                     required_confirmations],
                                  [(payment_id, required_confirmations)])))
             | _ \<Rightarrow> (d, states, [TxidGenericError], [])))"

text \<open>
  \<open>process_withdrawal_address_input\<close>. The result is the store, the conversation
  states, the messages sent and the calls made to the gate and to the portfolio.
\<close>

definition process_withdrawal_address_input ::
  "db \<Rightarrow> wstates \<Rightarrow> int \<Rightarrow> int \<Rightarrow> string \<Rightarrow> db \<times> wstates \<times> reply list \<times> db_call list" where
  "process_withdrawal_address_input d states chat user_id address_text =
     (case states user_id of
        None \<Rightarrow> (d, states, [], [])
      | Some withdrawal_state \<Rightarrow>
          if withdrawal_state = empty_wstate then (d, states, [], [])
          else
            (case ws_token withdrawal_state of
               None \<Rightarrow> (d, states(user_id := None), [WithdrawalGenericError], [])
             | Some token \<Rightarrow>
                 (let wallet_address = py_strip address_text in
                  if length wallet_address < 20 \<or> length wallet_address > 100 then
                    (d, states, [InvalidAddressFormat token], [])
                  else
                    (case portfolio d user_id token of
                       None \<Rightarrow> (d, states(user_id := None), [TokenNotInPortfolio], [])
                     | Some token_amount \<Rightarrow>
                         (let withdrawal_fee = token_amount * (10 / 100);
                              net_amount = token_amount - withdrawal_fee;
                              (d', withdrawal_result) =
                                atomic_create_verified_withdrawal d user_id ''crypto'' token
                                  token_amount wallet_address;
                              gate_call =
                                GateCall user_id ''crypto'' token token_amount wallet_address
                          in case withdrawal_result of
                               Refused reason explanation \<Rightarrow>
                                 (d', states(user_id := None),
                                  [WithdrawalSecurityBlock reason explanation withdrawal_fee
                                     (get_fee_payment_token token)],
                                  [gate_call])
                             | Created withdrawal_id fee_amount fee_token net fee_txid \<Rightarrow>
                                 (update_portfolio d' user_id token (- token_amount) 0,
                                  states(user_id := None),
                                  [WithdrawalApproved withdrawal_id token token_amount
                                     fee_amount fee_token net wallet_address fee_txid],
                                  [gate_call,
                                   UpdatePortfolioCall user_id token (- token_amount) 0]))))))"

text \<open>
  The \<open>enter_address_\<close> branch of \<open>handle_callback_query\<close>; \<open>token\<close> is the rest
  of the callback data.
\<close>

definition enter_address_callback ::
  "db \<Rightarrow> wstates \<Rightarrow> int \<Rightarrow> int \<Rightarrow> string \<Rightarrow> wstates \<times> reply list" where
  "enter_address_callback d states chat user_id token =
     (let set_step = (\<lambda>sts. sts(user_id :=
            map_option (\<lambda>w. w\<lparr>ws_step := Some ''entering_address''\<rparr>) (sts user_id)))
      in
      if states user_id = None
         \<or> map_option ws_fee_verified (states user_id) \<noteq> Some (Some True) then
        (case get_user_verified_fee_payment d user_id token of
           None \<Rightarrow> (states, [CallbackSecurityBlock])
         | Some verified_payment \<Rightarrow>
             (set_step (states(user_id \<mapsto>
                 empty_wstate\<lparr>ws_token := Some token, ws_fee_verified := Some True,
                              ws_fee_payment_id := Some (fp_id verified_payment)\<rparr>)),
              [EnterAddressPrompt token]))
      else (set_step states, [EnterAddressPrompt token]))"


section \<open>Confirmation-accrual scheduler\<close>

text \<open>
  Modelled from the spec: \<open>db.update_fee_payment_confirmations\<close>,
  \<open>db.mark_fee_payment_verified\<close> and \<open>db.mark_fee_payment_rejected\<close>
  (\<open>bot.database\<close> is not part of the sources). The ledger's
  \<open>advance_confirmations\<close> is a monotonic update (a smaller count changes nothing);
  \<open>mark_verified\<close> and \<open>mark_rejected\<close> are sticky: neither changes a payment
  that already has the opposite terminal status.
\<close>

definition update_fee_payment_confirmations :: "db \<Rightarrow> int \<Rightarrow> int \<Rightarrow> db" where
  "update_fee_payment_confirmations d pid n =
     d\<lparr>fee_payments :=
          map (\<lambda>p. if fp_id p = pid \<and> fp_confirmations p \<le> n
                    then p\<lparr>fp_confirmations := n\<rparr> else p) (fee_payments d)\<rparr>"

definition mark_fee_payment_verified :: "db \<Rightarrow> int \<Rightarrow> db" where
  "mark_fee_payment_verified d pid =
     d\<lparr>fee_payments :=
          map (\<lambda>p. if fp_id p = pid \<and> fp_status p \<noteq> Rejected
                    then p\<lparr>fp_status := Verified\<rparr> else p) (fee_payments d)\<rparr>"

definition mark_fee_payment_rejected :: "db \<Rightarrow> int \<Rightarrow> db" where
  "mark_fee_payment_rejected d pid =
     d\<lparr>fee_payments :=
          map (\<lambda>p. if fp_id p = pid \<and> fp_status p \<noteq> Verified
                    then p\<lparr>fp_status := Rejected\<rparr> else p) (fee_payments d)\<rparr>"

text \<open>
  What the task does, in order: the waits, the ledger calls, the write to the
  conversation state and the progress messages (delivered or failed and swallowed).
\<close>

datatype sched_event =
    Sleep int
  | UpdateConfirmations int int
  | MarkVerified int
  | SetStepVerified int
  | SendProgress int int int
  | SendFailed int
  | MarkRejected int

datatype sched_outcome = PaymentNotFound | Completed | Failed | Cancelled

text \<open>
  The points at which the coroutine is suspended: the lookup of the payment, the wait
  and the ledger update of each confirmation, and the two calls that set a terminal
  status. A task that is cancelled receives \<open>CancelledError\<close> at the point where it is
  suspended; \<open>CancelledError\<close> is not an \<open>Exception\<close>, so the \<open>except\<close> clause of
  the task does not catch it.
\<close>

datatype await_point = AwaitLookup | AwaitSleep int | AwaitUpdate int | AwaitVerify | AwaitReject

text \<open>
  The task runs between other handlers, so what it meets is given by an environment:
  the point, if any, at which the task is cancelled; whether the lookup, the ledger
  update of a given confirmation or \<open>mark_fee_payment_verified\<close> raises; the users that
  have an entry in \<open>user_withdrawal_states\<close> when the entry is tested for a given
  confirmation (\<open>user_id in user_withdrawal_states\<close>), and when it is written at that
  confirmation, after the await of \<open>mark_fee_payment_verified\<close>
  (\<open>user_withdrawal_states[user_id]['step'] = 'verified'\<close>, a \<open>KeyError\<close> when the
  entry has gone in between); and whether sending the message fails.
\<close>

record sched_env =
  env_cancelled :: "await_point \<Rightarrow> bool"
  env_lookup_raises :: bool
  env_update_raises :: "int \<Rightarrow> bool"
  env_verify_raises :: bool
  env_in_flow :: "int \<Rightarrow> int set"
  env_in_flow_after_verify :: "int \<Rightarrow> int set"
  env_send_raises :: "int \<Rightarrow> bool"

definition confirmation_delays :: "string \<Rightarrow> int list" where
  "confirmation_delays token =
     (case map_of
        [(''BTC'', [120, 240]), (''ETH'', [30, 60]), (''SOL'', [15]), (''USDT'', [30, 60]),
         (''BNB'', [60, 120]), (''MATIC'', [30, 60]), (''ADA'', [60, 120]),
         (''LINK'', [30, 60])] token of
        Some ds \<Rightarrow> ds
      | None \<Rightarrow> [60, 120])"

definition wait_time :: "int list \<Rightarrow> int \<Rightarrow> int" where
  "wait_time delays confirmation =
     (if confirmation \<le> int (length delays) then delays ! nat (confirmation - 1)
      else last delays)"

definition progress_message :: "sched_env \<Rightarrow> int \<Rightarrow> int \<Rightarrow> int \<Rightarrow> sched_event" where
  "progress_message env user_id confirmation required =
     (if env_send_raises env confirmation then SendFailed user_id
      else SendProgress user_id confirmation required)"

text \<open>How the loop was left: at its end or by \<open>break\<close>, by an exception, or by cancellation.\<close>

datatype loop_end = LoopDone | LoopRaised | LoopCancelled

text \<open>
  The body of the \<open>for confirmation in range(1, required_confirmations + 1)\<close> loop,
  from the given confirmation on.
\<close>

function confirm_loop ::
  "sched_env \<Rightarrow> fee_payment \<Rightarrow> int \<Rightarrow> int \<Rightarrow> int \<Rightarrow> sched_event list \<times> loop_end" where
  "confirm_loop env payment payment_id required confirmation =
     (if required < confirmation then ([], LoopDone)
      else
        (let sleep = Sleep (wait_time (confirmation_delays (fp_token payment)) confirmation)
         in
         if env_cancelled env (AwaitSleep confirmation) then ([], LoopCancelled)
         else if env_cancelled env (AwaitUpdate confirmation) then ([sleep], LoopCancelled)
         else if env_update_raises env confirmation then ([sleep], LoopRaised)
         else
           (let written = [sleep, UpdateConfirmations payment_id confirmation];
                user_id = fp_user_id payment;
                send = progress_message env user_id confirmation required
            in
            if user_id \<in> env_in_flow env confirmation then
              (if required \<le> confirmation then
                 (if env_cancelled env AwaitVerify then (written, LoopCancelled)
                  else if env_verify_raises env then (written, LoopRaised)
                  else if user_id \<notin> env_in_flow_after_verify env confirmation then
                    (written @ [MarkVerified payment_id], LoopRaised)
                  else
                    (written @ [MarkVerified payment_id, SetStepVerified user_id, send],
                     LoopDone))
               else
                 (let (rest, ending) =
                        confirm_loop env payment payment_id required (confirmation + 1)
                  in (written @ [send] @ rest, ending)))
            else
              (if required \<le> confirmation then (written, LoopDone)
               else
                 (let (rest, ending) =
                        confirm_loop env payment payment_id required (confirmation + 1)
                  in (written @ rest, ending))))))"
  by pat_completeness auto
termination
  by (relation "measure (\<lambda>(env, payment, payment_id, required, confirmation).
        nat (required + 1 - confirmation))") auto

text \<open>The \<open>except Exception\<close> clause: the payment is marked rejected.\<close>

definition reject_after_exception ::
  "sched_env \<Rightarrow> int \<Rightarrow> sched_event list \<Rightarrow> sched_outcome \<times> sched_event list" where
  "reject_after_exception env payment_id events =
     (if env_cancelled env AwaitReject then (Cancelled, events)
      else (Failed, events @ [MarkRejected payment_id]))"

definition simulate_blockchain_confirmations ::
  "sched_env \<Rightarrow> db \<Rightarrow> int \<Rightarrow> int \<Rightarrow> sched_outcome \<times> sched_event list" where
  "simulate_blockchain_confirmations env d payment_id required_confirmations =
     (if env_cancelled env AwaitLookup then (Cancelled, [])
      else if env_lookup_raises env then reject_after_exception env payment_id []
      else
        (case get_fee_payment_by_id d payment_id of
           None \<Rightarrow> (PaymentNotFound, [])
         | Some payment \<Rightarrow>
             (case confirm_loop env payment payment_id required_confirmations 1 of
                (events, LoopDone) \<Rightarrow> (Completed, events)
              | (events, LoopCancelled) \<Rightarrow> (Cancelled, events)
              | (events, LoopRaised) \<Rightarrow> reject_after_exception env payment_id events)))"


text \<open>The confirmation counts a run writes to the ledger, in order.\<close>

fun confirmations_written :: "sched_event list \<Rightarrow> int list" where
  "confirmations_written [] = []"
| "confirmations_written (UpdateConfirmations pid n # es) = n # confirmations_written es"
| "confirmations_written (e # es) = confirmations_written es"

text \<open>The effect of a run on the ledger: its ledger calls, applied in order.\<close>

fun apply_event :: "db \<Rightarrow> sched_event \<Rightarrow> db" where
  "apply_event d (UpdateConfirmations pid n) = update_fee_payment_confirmations d pid n"
| "apply_event d (MarkVerified pid) = mark_fee_payment_verified d pid"
| "apply_event d (MarkRejected pid) = mark_fee_payment_rejected d pid"
| "apply_event d e = d"


definition status_of :: "db \<Rightarrow> int \<Rightarrow> fp_status option" where
  "status_of d pid = map_option fp_status (get_fee_payment_by_id d pid)"

section \<open>Interrupted and concurrent runs of the address step\<close>

text \<open>
  \<open>process_withdrawal_address_input\<close> is a coroutine: once the conversation state
  and the address have been checked it suspends at each \<open>await\<close>, first reading the
  portfolio, then calling the gate, then debiting the portfolio. An invocation is
  modelled from the point where the checks have passed; its phase records how far it
  has come and the values it holds in local variables (\<open>token_amount\<close>, and the
  withdrawal id the gate returned).
\<close>

datatype phase =
    AtStart
  | HoldingRead real
  | GatePassed real int
  | Finished

record invocation =
  inv_user :: int
  inv_token :: string
  inv_address :: string
  inv_phase :: phase

text \<open>
  The two operations of the database layer that the address step calls. Both are
  parameters here, so that what is proved of the step does not depend on how the
  missing \<open>bot.database\<close> implements them.
\<close>

type_synonym gate_fn = "db \<Rightarrow> int \<Rightarrow> string \<Rightarrow> string \<Rightarrow> real \<Rightarrow> string \<Rightarrow> db \<times> withdrawal_result"

type_synonym debit_fn = "db \<Rightarrow> int \<Rightarrow> string \<Rightarrow> real \<Rightarrow> real \<Rightarrow> db"

text \<open>One step of an invocation: the code between two suspension points.\<close>

definition step_invocation :: "gate_fn \<Rightarrow> debit_fn \<Rightarrow> db \<Rightarrow> invocation \<Rightarrow> db \<times> invocation" where
  "step_invocation gate debit d iv =
     (case inv_phase iv of
        AtStart \<Rightarrow>
          (case portfolio d (inv_user iv) (inv_token iv) of
             None \<Rightarrow> (d, iv\<lparr>inv_phase := Finished\<rparr>)
           | Some token_amount \<Rightarrow> (d, iv\<lparr>inv_phase := HoldingRead token_amount\<rparr>))
      | HoldingRead token_amount \<Rightarrow>
          (case gate d (inv_user iv) ''crypto'' (inv_token iv) token_amount (inv_address iv) of
             (d', Refused reason explanation) \<Rightarrow> (d', iv\<lparr>inv_phase := Finished\<rparr>)
           | (d', Created withdrawal_id fee_amount fee_token net fee_txid) \<Rightarrow>
               (d', iv\<lparr>inv_phase := GatePassed token_amount withdrawal_id\<rparr>))
      | GatePassed token_amount withdrawal_id \<Rightarrow>
          (debit d (inv_user iv) (inv_token iv) (- token_amount) 0,
           iv\<lparr>inv_phase := Finished\<rparr>)
      | Finished \<Rightarrow> (d, iv))"

text \<open>
  The whole system: the store and the invocations in flight (any number, of any users).
  A schedule is a sequence of actions, each advancing one invocation by one step or
  applying one ledger call of a confirmation task. A run that is interrupted is a run of
  a shorter schedule.
\<close>

record system =
  sys_db :: db
  sys_invocations :: "invocation list"

datatype action = Advance nat | Accrual sched_event

fun perform :: "gate_fn \<Rightarrow> debit_fn \<Rightarrow> system \<Rightarrow> action \<Rightarrow> system" where
  "perform gate debit s (Advance i) =
     (if i < length (sys_invocations s) then
        (let (d', iv') = step_invocation gate debit (sys_db s) (sys_invocations s ! i)
         in \<lparr>sys_db = d', sys_invocations = (sys_invocations s)[i := iv']\<rparr>)
      else s)"
| "perform gate debit s (Accrual e) = s\<lparr>sys_db := apply_event (sys_db s) e\<rparr>"

definition run_schedule :: "gate_fn \<Rightarrow> debit_fn \<Rightarrow> system \<Rightarrow> action list \<Rightarrow> system" where
  "run_schedule gate debit s schedule = foldl (perform gate debit) s schedule"

definition initial_system :: "db \<Rightarrow> invocation list \<Rightarrow> system" where
  "initial_system d invs = \<lparr>sys_db = d, sys_invocations = invs\<rparr>"

text \<open>
  Modelled from the spec: the contract of \<open>db.atomic_create_verified_withdrawal\<close>
  (\<open>bot.database\<close> is not part of the sources). A call is indivisible. When it refuses
  it changes nothing. When it succeeds it appends one withdrawal record, with the id it
  returns, for the user, asset and gross amount it was called with, referencing a fee
  payment that no earlier record references; of the portfolio it changes at most the
  holding of that user in that asset (it may debit it, as step 4 of the contract says,
  or leave the debit to the caller).
\<close>

definition gate_contract :: "gate_fn \<Rightarrow> bool" where
  "gate_contract gate =
     (\<forall>d u wt t a addr.
        case gate d u wt t a addr of
          (d', Refused reason explanation) \<Rightarrow> d' = d
        | (d', Created wid fee fee_token net fee_txid) \<Rightarrow>
            (\<exists>w. withdrawals d' = withdrawals d @ [w] \<and> wd_id w = wid \<and> wd_user_id w = u
                 \<and> wd_asset w = t \<and> wd_gross_amount w = a
                 \<and> wd_fee_payment_id w \<notin> set (map wd_fee_payment_id (withdrawals d)))
            \<and> (\<forall>u' t'. (u', t') \<noteq> (u, t) \<longrightarrow> portfolio d' u' t' = portfolio d u' t'))"


text \<open>
  Modelled from the spec: the gate with step 4 of its contract read to the letter, the
  debit of the gross amount made by the gate itself (\<open>bot.database\<close> is not part of
  the sources, so it cannot be told which of the two the implementation does). It
  meets the same contract.
\<close>

definition atomic_create_verified_withdrawal_debiting :: gate_fn where
  "atomic_create_verified_withdrawal_debiting d user_id withdrawal_type withdrawal_token
       withdrawal_amount to_address =
     (case atomic_create_verified_withdrawal d user_id withdrawal_type withdrawal_token
             withdrawal_amount to_address of
        (d', Refused reason explanation) \<Rightarrow> (d', Refused reason explanation)
      | (d', Created withdrawal_id fee_amount fee_token net fee_txid) \<Rightarrow>
          (update_portfolio d' user_id withdrawal_token (- withdrawal_amount) 0,
           Created withdrawal_id fee_amount fee_token net fee_txid))"







section \<open>Accepted shapes and retries, as the specification words them\<close>

text \<open>
  The three shapes of a transaction id in the words of the specification: fixed-length
  hexadecimal, \<open>0x\<close>-prefixed hexadecimal, and base58.
\<close>

definition hex64 :: "string \<Rightarrow> bool" where
  "hex64 s = (length s = 64 \<and> all_in hex_chars s)"

definition prefixed_hex66 :: "string \<Rightarrow> bool" where
  "prefixed_hex66 s = (length s = 66 \<and> take 2 s = ''0x'' \<and> all_in hex_chars (drop 2 s))"

definition base58_88 :: "string \<Rightarrow> bool" where
  "base58_88 s = (length s = 88 \<and> all_in base58_chars s)"

definition txid_shape :: "string \<Rightarrow> string \<Rightarrow> bool" where
  "txid_shape token s =
     (if token \<in> set [''BTC'', ''ADA''] then hex64 s
      else if token \<in> set [''ETH'', ''USDT'', ''BNB'', ''MATIC'', ''LINK''] then prefixed_hex66 s
      else if token = ''SOL'' then base58_88 s
      else False)"

text \<open>
  A user who keeps re-entering the address step: any sequence of presses of the
  \<open>enter_address_\<close> button for a token and of address messages.
\<close>

datatype address_entry_action = PressEnterAddress | SendAddress string

fun retry_address_entry ::
  "db \<Rightarrow> wstates \<Rightarrow> int \<Rightarrow> int \<Rightarrow> string \<Rightarrow> address_entry_action list
   \<Rightarrow> db \<times> wstates \<times> reply list" where
  "retry_address_entry d states chat user_id token [] = (d, states, [])"
| "retry_address_entry d states chat user_id token (PressEnterAddress # acts) =
     (let (states', rs) = enter_address_callback d states chat user_id token;
          (d'', states'', rs') = retry_address_entry d states' chat user_id token acts
      in (d'', states'', rs @ rs'))"
| "retry_address_entry d states chat user_id token (SendAddress text # acts) =
     (let (d', states', rs, calls) =
            process_withdrawal_address_input d states chat user_id text;
          (d'', states'', rs') = retry_address_entry d' states' chat user_id token acts
      in (d'', states'', rs @ rs'))"

fun is_approval :: "reply \<Rightarrow> bool" where
  "is_approval (WithdrawalApproved wid token gross fee fee_token net addr txid) = True"
| "is_approval r = False"

text \<open>The conversation of the user, if there is one, is about the given token.\<close>

definition conversation_about :: "wstates \<Rightarrow> int \<Rightarrow> string \<Rightarrow> bool" where
  "conversation_about states user_id token =
     (case states user_id of
        None \<Rightarrow> True
      | Some w \<Rightarrow> (case ws_token w of None \<Rightarrow> True | Some t \<Rightarrow> t = token))"

section \<open>Concrete scenarios\<close>

definition txid_a64 :: string where
  "txid_a64 = replicate 64 CHR ''a''"

definition address_b34 :: string where
  "address_b34 = replicate 34 CHR ''b''"

definition btc_payment :: "fp_status \<Rightarrow> fee_payment" where
  "btc_payment st =
     \<lparr>fp_id = 1, fp_user_id = 7, fp_token = ''BTC'', fp_expected_amount = 1 / 2,
      fp_txid = txid_a64, fp_network = ''Bitcoin'', fp_withdrawal_token = ''BTC'',
      fp_withdrawal_amount = 5, fp_confirmations = 0, fp_status = st\<rparr>"

text \<open>User 7 holds 5 BTC and has one fee payment, with the given status.\<close>

definition btc_db :: "fp_status \<Rightarrow> db" where
  "btc_db st =
     \<lparr>fee_payments = [btc_payment st], withdrawals = [],
      portfolio = (\<lambda>u. if u = 7 then [''BTC'' \<mapsto> 5] else Map.empty)\<rparr>"


text \<open>A conversation state as the \<open>fee_paid_\<close> step writes it, at the given step.\<close>

definition fee_paid_state :: "string \<Rightarrow> string \<Rightarrow> wstate" where
  "fee_paid_state token step =
     empty_wstate\<lparr>ws_token := Some token, ws_withdrawal_token := Some token,
                  ws_withdrawal_amount := Some 5, ws_fee_amount := Some (1 / 2),
                  ws_net_amount := Some (9 / 2), ws_step := Some step\<rparr>"

text \<open>
  No call raises and the task is not cancelled; the users with a conversation entry are
  given for each confirmation.
\<close>

definition quiet_env :: "(int \<Rightarrow> int set) \<Rightarrow> sched_env" where
  "quiet_env in_flow =
     \<lparr>env_cancelled = (\<lambda>pt. False), env_lookup_raises = False,
      env_update_raises = (\<lambda>c. False), env_verify_raises = False, env_in_flow = in_flow,
      env_in_flow_after_verify = in_flow, env_send_raises = (\<lambda>c. False)\<rparr>"

text \<open>
  The task as the program starts it: \<open>asyncio.create_task\<close> inside a coroutine that
  \<open>handle_text_input\<close> runs with \<open>asyncio.run\<close>, which cancels the tasks still
  pending when that coroutine returns. The task is then suspended at its first await.
\<close>

definition cancelled_at_start :: "(int \<Rightarrow> int set) \<Rightarrow> sched_env" where
  "cancelled_at_start in_flow = (quiet_env in_flow)\<lparr>env_cancelled := (\<lambda>pt. pt = AwaitLookup)\<rparr>"

definition empty_session :: session where
  "empty_session =
     \<lparr>users_inputting_trader_id = {}, users_connecting_wallet = Map.empty,
      user_withdrawal_states = Map.empty, user_states = Map.empty,
      admin_balance_operations = Map.empty, admin_ban_operations = Map.empty\<rparr>"

definition text_from :: "int \<Rightarrow> string \<Rightarrow> message" where
  "text_from u t = \<lparr>chat_id = u, from_user_id = u, msg_text = t\<rparr>"

text \<open>Two invocations of the same user for the same token, and an interleaving of them.\<close>

definition btc_invocation :: invocation where
  "btc_invocation =
     \<lparr>inv_user = 7, inv_token = ''BTC'', inv_address = address_b34, inv_phase = AtStart\<rparr>"

definition two_invocations :: "invocation list" where
  "two_invocations = [btc_invocation, btc_invocation]"

definition interleaved :: "action list" where
  "interleaved = [Advance 0, Advance 1, Advance 0, Advance 1, Advance 0, Advance 1]"

text \<open>User 7 holds 5 BTC and has two verified fee payments.\<close>

definition two_payments_db :: db where
  "two_payments_db =
     \<lparr>fee_payments =
        [btc_payment Verified,
         (btc_payment Verified)\<lparr>fp_id := 2, fp_txid := replicate 64 CHR ''c''\<rparr>],
      withdrawals = [],
      portfolio = (\<lambda>u. if u = 7 then [''BTC'' \<mapsto> 5] else Map.empty)\<rparr>"

section \<open>Properties of the validation utilities\<close>

text \<open>
C9 (as the code has it). \<open>validate_txid\<close> is a structural check per asset family,
  applied to the argument after \<open>strip()\<close>: for BTC and ADA it accepts exactly the
  strings whose stripped form is 64 hexadecimal characters, for ETH, USDT, BNB, MATIC and
  LINK those whose stripped form is \<open>0x\<close> followed by 64 hexadecimal characters (66 in
  all), for SOL those whose stripped form is 88 base58 characters, and nothing for any
  other asset. It returns false for \<open>None\<close>, for a non-string and for the empty
  string. On an argument without surrounding whitespace the accepted strings are exactly
  those of the three shapes.
\<close>

theorem validate_txid_shape_after_strip:
  "validate_txid (PyStr s) token = txid_shape token (py_strip s)
   \<and> validate_txid PyNone token = False
   \<and> validate_txid (PyInt n) token = False
   \<and> validate_txid (PyStr []) token = False
   \<and> (py_strip s = s \<longrightarrow> validate_txid (PyStr s) token = txid_shape token s)"
proof -
  have e: "py_strip [] = []" by (simp add: py_strip_def)
  have a: "validate_txid (PyStr s) token = txid_shape token (py_strip s)"
    by (cases "s = []")
      (auto simp: validate_txid_def txid_shape_def hex64_def prefixed_hex66_def base58_88_def
        Let_def e all_in_def)
  have b: "validate_txid PyNone token = False" "validate_txid (PyInt n) token = False"
    "validate_txid (PyStr []) token = False"
    by (simp_all add: validate_txid_def)
  from a b show ?thesis by simp
qed

text \<open>
C9 as stated fails: a string of 65 characters, a space followed by 64 hexadecimal
  characters, is accepted for BTC.
\<close>

theorem validate_txid_strips_counterexample:
  "validate_txid (PyStr (CHR '' '' # txid_a64)) ''BTC'' \<and> length (CHR '' '' # txid_a64) = 65"
  by (simp add: validate_txid_def py_strip_def py_isspace_def all_in_def hex_chars_def
      txid_a64_def list_all_iff)

text \<open>
The characterisation at concrete transaction ids.
\<close>

theorem validate_txid_shape_witness:
  "py_strip txid_a64 = txid_a64 \<and> validate_txid (PyStr txid_a64) ''BTC''
   \<and> \<not> validate_txid (PyStr (''0x'' @ txid_a64)) ''BTC''
   \<and> validate_txid (PyStr (''0x'' @ txid_a64)) ''ETH''"
proof -
  have s: "py_strip txid_a64 = txid_a64"
    by (simp add: py_strip_def py_isspace_def txid_a64_def)
  have s2: "py_strip (''0x'' @ txid_a64) = ''0x'' @ txid_a64"
    by (simp add: py_strip_def py_isspace_def txid_a64_def)
  have h: "all_in hex_chars txid_a64"
    by (simp add: all_in_def hex_chars_def txid_a64_def list_all_iff)
  show ?thesis
    using validate_txid_shape_after_strip[of txid_a64 "''BTC''"]
      validate_txid_shape_after_strip[of "''0x'' @ txid_a64" "''BTC''"]
      validate_txid_shape_after_strip[of "''0x'' @ txid_a64" "''ETH''"] s s2 h
    by (simp add: txid_shape_def hex64_def prefixed_hex66_def txid_a64_def)
qed

section \<open>Properties of the input router\<close>

text \<open>
C7. For every message, \<open>handle_text_input\<close> does what the first matching state
  bucket prescribes, the buckets being checked in the order trader id, wallet
  connection, admin balance operation, admin ban operation, withdrawal state, support or
  bug report: the two admin buckets call their handler only for the admin, the
  withdrawal bucket calls the transaction-id handler at the sub-step \<open>entering_txid\<close>
  and the address handler at any other sub-step, and the generic reply is sent when no
  bucket matches. At most one handler is called per message.
\<close>

theorem handle_text_input_first_match:
  "snd (handle_text_input a s m) = route_by_priority a s m
   \<and> length (snd (handle_text_input a s m)) \<le> 1"
  by (auto simp: handle_text_input_def route_by_priority_def first_matching_bucket_def
      bucket_priority_def Let_def split: option.splits)

text \<open>
A user with both a withdrawal state and a pending bug report: the withdrawal bucket
  wins, and the stripped text goes to the transaction-id handler.
\<close>

theorem handle_text_input_first_match_witness:
  "snd (handle_text_input (Some 1)
          (empty_session\<lparr>user_withdrawal_states := [7 \<mapsto> fee_paid_state ''BTC'' ''entering_txid''],
                          user_states := [7 \<mapsto> ''waiting_for_bug_report'']\<rparr>)
          (text_from 7 '' abc '')) = [TxidInput 7 7 ''abc'']
   \<and> route_by_priority (Some 1)
          (empty_session\<lparr>user_withdrawal_states := [7 \<mapsto> fee_paid_state ''BTC'' ''entering_txid''],
                          user_states := [7 \<mapsto> ''waiting_for_bug_report'']\<rparr>)
          (text_from 7 '' abc '') = [TxidInput 7 7 ''abc'']"
proof -
  have "route_by_priority (Some 1)
          (empty_session\<lparr>user_withdrawal_states := [7 \<mapsto> fee_paid_state ''BTC'' ''entering_txid''],
                          user_states := [7 \<mapsto> ''waiting_for_bug_report'']\<rparr>)
          (text_from 7 '' abc '') = [TxidInput 7 7 ''abc'']"
    by (simp add: route_by_priority_def first_matching_bucket_def bucket_priority_def
        empty_session_def text_from_def fee_paid_state_def empty_wstate_def py_strip_def
        py_isspace_def)
  with handle_text_input_first_match[of "Some 1"
          "empty_session\<lparr>user_withdrawal_states := [7 \<mapsto> fee_paid_state ''BTC'' ''entering_txid''],
                          user_states := [7 \<mapsto> ''waiting_for_bug_report'']\<rparr>"
          "text_from 7 '' abc ''"]
  show ?thesis by simp
qed

text \<open>
C8 as stated fails: a non-admin with a stale admin balance operation gets no reply at
  all. The state is dropped and the handler returns.
\<close>

theorem stale_admin_state_no_reply_counterexample:
  "handle_text_input (Some 1)
     (empty_session\<lparr>admin_balance_operations :=
        [7 \<mapsto> \<lparr>op_action = ''add'', op_step = ''user_id''\<rparr>]\<rparr>)
     (text_from 7 ''100'') = (empty_session, [])"
  by (simp add: handle_text_input_def empty_session_def text_from_def is_admin_def)

text \<open>
C8 (as the code has it). When a user who is not the admin sends a text while an admin
  balance operation or an admin ban operation is recorded for them, and neither the
  trader-id nor the wallet bucket matches first, the router removes the recorded
  operation (the balance operation first, when both exist), calls no handler, so no
  balance is changed, and sends no reply.
\<close>

theorem stale_admin_state_discarded_silently:
  assumes "\<not> is_admin a (from_user_id m)"
    and "from_user_id m \<notin> users_inputting_trader_id s"
    and "users_connecting_wallet s (from_user_id m) = None"
    and "admin_balance_operations s (from_user_id m) \<noteq> None
         \<or> admin_ban_operations s (from_user_id m) \<noteq> None"
  shows "snd (handle_text_input a s m) = []
     \<and> fst (handle_text_input a s m) =
         (if admin_balance_operations s (from_user_id m) \<noteq> None
          then s\<lparr>admin_balance_operations :=
                   (admin_balance_operations s)(from_user_id m := None)\<rparr>
          else s\<lparr>admin_ban_operations := (admin_ban_operations s)(from_user_id m := None)\<rparr>)"
  using assms by (auto simp: handle_text_input_def Let_def)

text \<open>
A stale ban operation of user 7, who is not the admin.
\<close>

theorem stale_admin_state_discarded_silently_witness:
  "\<not> is_admin (Some 1) 7
   \<and> snd (handle_text_input (Some 1)
       (empty_session\<lparr>admin_ban_operations :=
          [7 \<mapsto> \<lparr>op_action = ''ban'', op_step = ''reason''\<rparr>]\<rparr>)
       (text_from 7 ''spam'')) = []
   \<and> admin_ban_operations (fst (handle_text_input (Some 1)
       (empty_session\<lparr>admin_ban_operations :=
          [7 \<mapsto> \<lparr>op_action = ''ban'', op_step = ''reason''\<rparr>]\<rparr>)
       (text_from 7 ''spam''))) 7 = None"
proof -
  have h: "\<not> is_admin (Some 1) 7" by (simp add: is_admin_def)
  show ?thesis
    using h stale_admin_state_discarded_silently[of "Some 1" "text_from 7 ''spam''"
        "empty_session\<lparr>admin_ban_operations :=
          [7 \<mapsto> \<lparr>op_action = ''ban'', op_step = ''reason''\<rparr>]\<rparr>"]
    by (simp add: empty_session_def text_from_def)
qed

section \<open>Properties of the transaction-id step\<close>

lemma find_txid_exact: "get_fee_payment_by_txid d txid = Some prior \<Longrightarrow> fp_txid prior = txid \<and> prior \<in> set (fee_payments d)"
  by (auto simp: get_fee_payment_by_txid_def find_Some_iff)

text \<open>
C3 (as the code has it). A user at the step \<open>entering_txid\<close>, whose conversation
  state carries the token, the withdrawal token, the withdrawal amount and the fee
  amount, submits a transaction id that the ledger already holds (exact match), whoever
  owns the prior record. If the id has the format of the conversation's token, the reply
  is the replay error, which differs from the format error; if it has not, the format
  check comes first and the reply is the format error. In both cases no fee payment is
  created, the ledger and the prior record are unchanged, and no confirmation task is
  started.
\<close>

theorem replayed_txid_is_rejected:
  assumes "states u = Some ws"
    and "ws_step ws = Some ''entering_txid''"
    and "ws_token ws = Some token"
    and "ws_withdrawal_token ws = Some wt"
    and "ws_withdrawal_amount ws = Some wa"
    and "ws_fee_amount ws = Some fa"
    and "get_fee_payment_by_txid d txid = Some prior"
  shows "process_txid_input cfg d states chat u txid =
           (d, states,
            [if validate_txid (PyStr txid) token then TxidAlreadyUsed token
             else InvalidTxidFormat token], [])
     \<and> TxidAlreadyUsed token \<noteq> InvalidTxidFormat token
     \<and> fp_txid prior = txid
     \<and> prior \<in> set (fee_payments (fst (process_txid_input cfg d states chat u txid)))"
proof -
  have run: "process_txid_input cfg d states chat u txid =
           (d, states,
            [if validate_txid (PyStr txid) token then TxidAlreadyUsed token
             else InvalidTxidFormat token], [])"
    using assms by (simp add: process_txid_input_def)
  from find_txid_exact[OF assms(7)] run show ?thesis by simp
qed

text \<open>
C3 as stated fails: the ledger holds a 64-character hexadecimal id, paid in BTC by
  user 7; user 8 submits the same id in an ETH conversation and gets the format error,
  not the replay error.
\<close>

theorem replayed_txid_wrong_format_counterexample:
  "get_fee_payment_by_txid (btc_db Pending) txid_a64 = Some (btc_payment Pending)
   \<and> process_txid_input Map.empty (btc_db Pending)
        [8 \<mapsto> fee_paid_state ''ETH'' ''entering_txid''] 8 8 txid_a64
      = (btc_db Pending, [8 \<mapsto> fee_paid_state ''ETH'' ''entering_txid''],
         [InvalidTxidFormat ''ETH''], [])"
proof -
  have v: "\<not> validate_txid (PyStr txid_a64) ''ETH''"
    by (simp add: validate_txid_def py_strip_def py_isspace_def txid_a64_def)
  have f: "get_fee_payment_by_txid (btc_db Pending) txid_a64 = Some (btc_payment Pending)"
    by (simp add: get_fee_payment_by_txid_def btc_db_def btc_payment_def)
  show ?thesis using v f
    by (simp add: process_txid_input_def fee_paid_state_def empty_wstate_def)
qed

text \<open>
The same id submitted by user 8 in an ADA conversation, where its format is valid: the
  replay error.
\<close>

theorem replayed_txid_is_rejected_witness:
  "process_txid_input Map.empty (btc_db Verified)
        [8 \<mapsto> fee_paid_state ''ADA'' ''entering_txid''] 8 8 txid_a64
      = (btc_db Verified, [8 \<mapsto> fee_paid_state ''ADA'' ''entering_txid''],
         [TxidAlreadyUsed ''ADA''], [])"
proof -
  have v: "validate_txid (PyStr txid_a64) ''ADA''"
    by (simp add: validate_txid_def py_strip_def py_isspace_def txid_a64_def all_in_def
        hex_chars_def list_all_iff)
  have f: "get_fee_payment_by_txid (btc_db Verified) txid_a64 = Some (btc_payment Verified)"
    by (simp add: get_fee_payment_by_txid_def btc_db_def btc_payment_def)
  have s: "[8 \<mapsto> fee_paid_state ''ADA'' ''entering_txid''] (8::int)
             = Some (fee_paid_state ''ADA'' ''entering_txid'')" by simp
  have k: "ws_step (fee_paid_state ''ADA'' ''entering_txid'') = Some ''entering_txid''"
    "ws_token (fee_paid_state ''ADA'' ''entering_txid'') = Some ''ADA''"
    "ws_withdrawal_token (fee_paid_state ''ADA'' ''entering_txid'') = Some ''ADA''"
    "ws_withdrawal_amount (fee_paid_state ''ADA'' ''entering_txid'') = Some 5"
    "ws_fee_amount (fee_paid_state ''ADA'' ''entering_txid'') = Some (1 / 2)"
    by (simp_all add: fee_paid_state_def empty_wstate_def)
  from replayed_txid_is_rejected[of "[8 \<mapsto> fee_paid_state ''ADA'' ''entering_txid'']" 8, OF s k f, of Map.empty 8] v
  show ?thesis by simp
qed

text \<open>
A well-formed, fresh transaction id creates a fee payment in the token of the
  conversation and starts its accrual task with the required number of confirmations of
  that token.
\<close>

lemma txid_step_starts_accrual:
  assumes "states u = Some ws"
    and "ws_step ws = Some ''entering_txid''"
    and "ws_token ws = Some token"
    and "ws_withdrawal_token ws = Some wt"
    and "ws_withdrawal_amount ws = Some wa"
    and "ws_fee_amount ws = Some fa"
    and "validate_txid (PyStr txid) token"
    and "get_fee_payment_by_txid d txid = None"
  shows "snd (snd (snd (process_txid_input cfg d states chat u txid))) =
           [(fresh_payment_id d, get_token_confirmation_requirement token)]
     \<and> map fp_token (fee_payments (fst (process_txid_input cfg d states chat u txid))) =
         map fp_token (fee_payments d) @ [token]"
proof -
  have "0 \<le> fold max xs (0::int)" for xs
    by (induction xs rule: rev_induct) auto
  then have "fresh_payment_id d \<noteq> 0" by (simp add: fresh_payment_id_def add_nonneg_eq_0_iff)
  with assms show ?thesis
    by (simp add: process_txid_input_def create_fee_payment_def Let_def)
qed

section \<open>Properties of the confirmation-accrual scheduler\<close>

declare confirm_loop.simps [simp del]

lemma confirmations_written_append:
  "confirmations_written (xs @ ys) = confirmations_written xs @ confirmations_written ys"
  by (induction xs rule: confirmations_written.induct) simp_all

lemma loop_done: "r < c \<Longrightarrow> confirm_loop env p pid r c = ([], LoopDone)"
  by (simp add: confirm_loop.simps)

lemma loop_last:
  "confirm_loop env p pid r r =
     (if env_cancelled env (AwaitSleep r) then ([], LoopCancelled)
      else if env_cancelled env (AwaitUpdate r)
      then ([Sleep (wait_time (confirmation_delays (fp_token p)) r)], LoopCancelled)
      else if env_update_raises env r
      then ([Sleep (wait_time (confirmation_delays (fp_token p)) r)], LoopRaised)
      else if fp_user_id p \<in> env_in_flow env r then
        (if env_cancelled env AwaitVerify
         then ([Sleep (wait_time (confirmation_delays (fp_token p)) r),
                UpdateConfirmations pid r], LoopCancelled)
         else if env_verify_raises env
         then ([Sleep (wait_time (confirmation_delays (fp_token p)) r),
                UpdateConfirmations pid r], LoopRaised)
         else if fp_user_id p \<notin> env_in_flow_after_verify env r
         then ([Sleep (wait_time (confirmation_delays (fp_token p)) r),
                UpdateConfirmations pid r, MarkVerified pid], LoopRaised)
         else ([Sleep (wait_time (confirmation_delays (fp_token p)) r),
                UpdateConfirmations pid r, MarkVerified pid, SetStepVerified (fp_user_id p),
                progress_message env (fp_user_id p) r r], LoopDone))
      else ([Sleep (wait_time (confirmation_delays (fp_token p)) r),
             UpdateConfirmations pid r], LoopDone))"
  by (simp add: confirm_loop.simps[of env p pid r r] Let_def)

lemma loop_step:
  "c < r \<Longrightarrow>
   confirm_loop env p pid r c =
     (if env_cancelled env (AwaitSleep c) then ([], LoopCancelled)
      else if env_cancelled env (AwaitUpdate c)
      then ([Sleep (wait_time (confirmation_delays (fp_token p)) c)], LoopCancelled)
      else if env_update_raises env c
      then ([Sleep (wait_time (confirmation_delays (fp_token p)) c)], LoopRaised)
      else
        (Sleep (wait_time (confirmation_delays (fp_token p)) c) # UpdateConfirmations pid c #
         (if fp_user_id p \<in> env_in_flow env c
          then [progress_message env (fp_user_id p) c r] else []) @
         fst (confirm_loop env p pid r (c + 1)),
         snd (confirm_loop env p pid r (c + 1))))"
  by (simp add: confirm_loop.simps[of env p pid r c] Let_def split: prod.splits)

lemma written_progress [simp]:
  "confirmations_written (progress_message env u c r # es) = confirmations_written es"
  by (simp add: progress_message_def)

lemma loop_written:
  "c \<le> r + 1 \<Longrightarrow>
   \<exists>k. c - 1 \<le> k \<and> k \<le> r \<and> confirmations_written (fst (confirm_loop env p pid r c)) = [c..k]"
proof (induction "nat (r + 1 - c)" arbitrary: c)
  case 0
  then have "r < c" by simp
  then show ?case using 0 by (intro exI[of _ "c - 1"]) (simp add: loop_done)
next
  case (Suc n)
  then have le: "c \<le> r" by simp
  show ?case
  proof (cases "c = r")
    case True
    show ?thesis
    proof (cases "confirmations_written (fst (confirm_loop env p pid r r)) = []")
      case True
      with \<open>c = r\<close> show ?thesis by (intro exI[of _ "c - 1"]) simp
    next
      case False
      then have "confirmations_written (fst (confirm_loop env p pid r r)) = [r]"
        by (simp add: loop_last split: if_splits)
      with \<open>c = r\<close> show ?thesis by (intro exI[of _ "c"]) simp
    qed
  next
    case False
    with le have lt: "c < r" by simp
    from Suc(2) have "n = nat (r + 1 - (c + 1))" by simp
    from Suc(1)[OF this] lt obtain k where
      k: "c \<le> k" "k \<le> r" "confirmations_written (fst (confirm_loop env p pid r (c + 1))) = [c + 1..k]"
      by auto
    show ?thesis
    proof (cases "env_cancelled env (AwaitSleep c) \<or> env_cancelled env (AwaitUpdate c)
        \<or> env_update_raises env c")
      case True
      with lt show ?thesis by (intro exI[of _ "c - 1"]) (auto simp: loop_step)
    next
      case False
      with lt k show ?thesis
        by (intro exI[of _ k]) (simp add: loop_step confirmations_written_append upto_rec1[of c k])
    qed
  qed
qed

lemma loop_verified:
  "MarkVerified q \<in> set (fst (confirm_loop env p pid r c)) \<Longrightarrow>
   q = pid \<and> c \<le> r
   \<and> fp_user_id p \<in> env_in_flow env r
   \<and> confirmations_written (fst (confirm_loop env p pid r c)) = [c..r]
   \<and> confirmations_written
        (takeWhile (\<lambda>e. e \<noteq> MarkVerified pid) (fst (confirm_loop env p pid r c))) = [c..r]"
proof (induction "nat (r + 1 - c)" arbitrary: c)
  case 0
  then have "r < c" by simp
  with 0 show ?case by (simp add: loop_done)
next
  case (Suc n)
  then have le: "c \<le> r" by simp
  show ?case
  proof (cases "c = r")
    case True
    with Suc(3) show ?thesis
      by (auto simp: loop_last progress_message_def split: if_splits)
  next
    case False
    with le have lt: "c < r" by simp
    from Suc(2) have n: "n = nat (r + 1 - (c + 1))" by simp
    from Suc(3) lt have mem: "MarkVerified q \<in> set (fst (confirm_loop env p pid r (c + 1)))"
      and nr: "\<not> env_cancelled env (AwaitSleep c)" "\<not> env_cancelled env (AwaitUpdate c)"
        "\<not> env_update_raises env c"
      by (auto simp: loop_step progress_message_def split: if_splits)
    from Suc(1)[OF n mem] lt nr show ?thesis
      by (simp add: loop_step progress_message_def upto_rec1[of c r])
  qed
qed

lemma loop_no_rejected:
  "MarkRejected q \<notin> set (fst (confirm_loop env p pid r c))"
proof (induction "nat (r + 1 - c)" arbitrary: c)
  case 0
  then have "r < c" by simp
  then show ?case by (simp add: loop_done)
next
  case (Suc n)
  show ?case
  proof (cases "c = r")
    case True
    then show ?thesis by (simp add: loop_last progress_message_def)
  next
    case False
    with Suc have lt: "c < r" by simp
    from Suc(2) have n: "n = nat (r + 1 - (c + 1))" by simp
    from Suc(1)[OF n] lt show ?thesis by (simp add: loop_step progress_message_def)
  qed
qed



lemma find_id_map:
  "(\<And>p. fp_id (f p) = fp_id p) \<Longrightarrow>
   find (\<lambda>p. fp_id p = pid) (map f xs) = map_option f (find (\<lambda>p. fp_id p = pid) xs)"
  by (induction xs) auto

lemma status_of_update [simp]:
  "status_of (update_fee_payment_confirmations d q n) pid = status_of d pid"
proof -
  have "fp_status \<circ> (\<lambda>p::fee_payment. if fp_id p = q \<and> fp_confirmations p \<le> n
          then p\<lparr>fp_confirmations := n\<rparr> else p) = fp_status"
    by (rule ext) simp
  then show ?thesis
    by (simp add: status_of_def get_fee_payment_by_id_def update_fee_payment_confirmations_def
        find_id_map option.map_comp)
qed









text \<open>The events of a run are those of the loop, followed at most by the rejection.\<close>

lemma run_events:
  assumes "simulate_blockchain_confirmations env d pid required = (outcome, evs)"
  shows "\<exists>loop. (evs = loop \<or> evs = loop @ [MarkRejected pid])
           \<and> (loop = [] \<or> (\<exists>p. loop = fst (confirm_loop env p pid required 1)))"
proof (cases "env_cancelled env AwaitLookup \<or> env_lookup_raises env
    \<or> get_fee_payment_by_id d pid = None")
  case True
  with assms have "evs = [] \<or> evs = [] @ [MarkRejected pid]"
    by (auto simp: simulate_blockchain_confirmations_def reject_after_exception_def
        split: if_splits)
  then show ?thesis by blast
next
  case False
  then obtain p where p: "get_fee_payment_by_id d pid = Some p" by auto
  with False assms have "evs = fst (confirm_loop env p pid required 1)
      \<or> evs = fst (confirm_loop env p pid required 1) @ [MarkRejected pid]"
    by (auto simp: simulate_blockchain_confirmations_def reject_after_exception_def
        split: if_splits prod.splits loop_end.splits)
  then show ?thesis by blast
qed

text \<open>
C6. The confirmation counts that a run of the accrual task writes to the ledger are
  1, 2, ..., k in this order, for some k: they never decrease and none exceeds the
  required number of confirmations. If the run marks the payment verified, the counts
  written are exactly 1 up to the required number, the required number is at least 1
  and is the last count written, and every count is written before the payment is
  marked verified. (The task is started with the required number of the payment's
  token, see \<open>txid_step_starts_accrual\<close>.)
\<close>

theorem confirmation_counts_monotone_capped:
  assumes "simulate_blockchain_confirmations env d pid required = (outcome, evs)"
  shows "sorted (confirmations_written evs)
     \<and> confirmations_written evs = [1..int (length (confirmations_written evs))]
     \<and> list_all (\<lambda>n. n \<le> required) (confirmations_written evs)
     \<and> (MarkVerified pid \<in> set evs \<longrightarrow>
          confirmations_written evs = [1..required] \<and> 1 \<le> required
          \<and> last (confirmations_written evs) = required
          \<and> confirmations_written (takeWhile (\<lambda>e. e \<noteq> MarkVerified pid) evs)
              = confirmations_written evs)"
proof -
  from run_events[OF assms] obtain loop where
    evs: "evs = loop \<or> evs = loop @ [MarkRejected pid]"
    and loop: "loop = [] \<or> (\<exists>p. loop = fst (confirm_loop env p pid required 1))"
    by blast
  from evs have w: "confirmations_written evs = confirmations_written loop"
    by (auto simp: confirmations_written_append)
  have shape: "\<exists>k. 0 \<le> k \<and> k \<le> max 0 required \<and> confirmations_written loop = [1..k]"
    using loop
  proof
    assume "loop = []"
    then show ?thesis by (intro exI[of _ 0]) simp
  next
    assume "\<exists>p. loop = fst (confirm_loop env p pid required 1)"
    then obtain p where l: "loop = fst (confirm_loop env p pid required 1)" by blast
    show ?thesis
    proof (cases "0 \<le> required")
      case True
      from loop_written[of 1 required env p pid] True l show ?thesis by auto
    next
      case False
      with l show ?thesis by (intro exI[of _ 0]) (simp add: loop_done)
    qed
  qed
  then obtain k where k: "0 \<le> k" "k \<le> max 0 required" "confirmations_written loop = [1..k]"
    by blast
  have a: "sorted (confirmations_written evs)" using w k by simp
  have b: "confirmations_written evs = [1..int (length (confirmations_written evs))]"
    using w k by simp
  have c: "list_all (\<lambda>n. n \<le> required) (confirmations_written evs)"
    using w k by (auto simp: list_all_iff)
  have d: "MarkVerified pid \<in> set evs \<longrightarrow>
          confirmations_written evs = [1..required] \<and> 1 \<le> required
          \<and> last (confirmations_written evs) = required
          \<and> confirmations_written (takeWhile (\<lambda>e. e \<noteq> MarkVerified pid) evs)
              = confirmations_written evs"
  proof
    assume "MarkVerified pid \<in> set evs"
    with evs have mem: "MarkVerified pid \<in> set loop" by auto
    with loop obtain p where l: "loop = fst (confirm_loop env p pid required 1)" by auto
    note v = loop_verified[of pid env p pid required 1, folded l, OF mem]
    from v have r1: "1 \<le> required" by simp
    have tw: "takeWhile (\<lambda>e. e \<noteq> MarkVerified pid) (loop @ zs)
        = takeWhile (\<lambda>e. e \<noteq> MarkVerified pid) loop" for zs
      by (rule takeWhile_append1[OF mem]) simp
    from evs tw[of "[]"] tw[of "[MarkRejected pid]"]
    have "takeWhile (\<lambda>e. e \<noteq> MarkVerified pid) evs
        = takeWhile (\<lambda>e. e \<noteq> MarkVerified pid) loop"
      by auto
    with v w r1 show "confirmations_written evs = [1..required] \<and> 1 \<le> required
          \<and> last (confirmations_written evs) = required
          \<and> confirmations_written (takeWhile (\<lambda>e. e \<noteq> MarkVerified pid) evs)
              = confirmations_written evs"
      by (simp add: upto_rec2[of 1 required])
  qed
  from a b c d show ?thesis by blast
qed

lemma btc_required: "get_token_confirmation_requirement ''BTC'' = 2"
  by (simp add: get_token_confirmation_requirement_def)

lemma btc_lookup: "get_fee_payment_by_id (btc_db st) 1 = Some (btc_payment st)"
  by (simp add: get_fee_payment_by_id_def btc_db_def btc_payment_def)

lemma btc_loop_user_present:
  "confirm_loop (quiet_env (\<lambda>c. {7})) (btc_payment Pending) 1 2 1 =
     ([Sleep 120, UpdateConfirmations 1 1, SendProgress 7 1 2, Sleep 240,
       UpdateConfirmations 1 2, MarkVerified 1, SetStepVerified 7, SendProgress 7 2 2],
      LoopDone)"
  by (simp add: loop_step loop_last quiet_env_def btc_payment_def confirmation_delays_def
      wait_time_def progress_message_def)

text \<open>
A BTC payment whose owner stays in the conversation: the counts 1 and 2 are written,
  then the payment is marked verified.
\<close>

theorem confirmation_counts_monotone_capped_witness:
  "simulate_blockchain_confirmations (quiet_env (\<lambda>c. {7})) (btc_db Pending) 1
     (get_token_confirmation_requirement ''BTC'') =
     (Completed,
      [Sleep 120, UpdateConfirmations 1 1, SendProgress 7 1 2, Sleep 240,
       UpdateConfirmations 1 2, MarkVerified 1, SetStepVerified 7, SendProgress 7 2 2])
   \<and> confirmations_written
       [Sleep 120, UpdateConfirmations 1 1, SendProgress 7 1 2, Sleep 240,
        UpdateConfirmations 1 2, MarkVerified 1, SetStepVerified 7, SendProgress 7 2 2]
      = [1, 2]
   \<and> last (confirmations_written
       [Sleep 120, UpdateConfirmations 1 1, SendProgress 7 1 2, Sleep 240,
        UpdateConfirmations 1 2, MarkVerified 1, SetStepVerified 7, SendProgress 7 2 2])
      = get_token_confirmation_requirement ''BTC''"
proof -
  have run: "simulate_blockchain_confirmations (quiet_env (\<lambda>c. {7})) (btc_db Pending) 1
     (get_token_confirmation_requirement ''BTC'') =
     (Completed,
      [Sleep 120, UpdateConfirmations 1 1, SendProgress 7 1 2, Sleep 240,
       UpdateConfirmations 1 2, MarkVerified 1, SetStepVerified 7, SendProgress 7 2 2])"
    by (simp add: simulate_blockchain_confirmations_def btc_lookup btc_loop_user_present
        btc_required) (simp add: quiet_env_def)
  have u: "[1..2] = [1, 2 :: int]" by (simp add: upto.simps)
  from confirmation_counts_monotone_capped[OF run] run show ?thesis
    by (simp add: btc_required u)
qed






text \<open>The two ways of failing that are slips of the code.\<close>

text \<open>
The owner's entry is removed while \<open>mark_fee_payment_verified\<close> is awaited: the
  write to the entry raises \<open>KeyError\<close>, and the payment that has just been marked
  verified is passed to \<open>mark_fee_payment_rejected\<close>.
\<close>

lemma accrual_keyerror_after_verification:
  "simulate_blockchain_confirmations
     ((quiet_env (\<lambda>c. {7}))\<lparr>env_in_flow_after_verify := (\<lambda>c. {})\<rparr>) (btc_db Pending) 1 2 =
     (Failed,
      [Sleep 120, UpdateConfirmations 1 1, SendProgress 7 1 2, Sleep 240,
       UpdateConfirmations 1 2, MarkVerified 1, MarkRejected 1])"
proof -
  have "confirm_loop ((quiet_env (\<lambda>c. {7}))\<lparr>env_in_flow_after_verify := (\<lambda>c. {})\<rparr>)
     (btc_payment Pending) 1 2 1 =
     ([Sleep 120, UpdateConfirmations 1 1, SendProgress 7 1 2, Sleep 240,
       UpdateConfirmations 1 2, MarkVerified 1], LoopRaised)"
    by (simp add: loop_step loop_last quiet_env_def btc_payment_def confirmation_delays_def
        wait_time_def progress_message_def)
  then show ?thesis
    by (simp add: simulate_blockchain_confirmations_def reject_after_exception_def btc_lookup)
      (simp add: quiet_env_def)
qed

text \<open>
The task as the program starts it is cancelled at its first await: it calls nothing.
\<close>

lemma accrual_cancelled_at_first_await:
  "simulate_blockchain_confirmations (cancelled_at_start in_flow) d pid required
     = (Cancelled, [])"
  by (simp add: simulate_blockchain_confirmations_def cancelled_at_start_def)

text \<open>
A cancelled task never calls \<open>mark_fee_payment_rejected\<close>.
\<close>

lemma accrual_cancelled_never_rejects:
  assumes "simulate_blockchain_confirmations env d pid required = (Cancelled, evs)"
  shows "MarkRejected pid \<notin> set evs"
proof (cases "env_cancelled env AwaitLookup \<or> env_lookup_raises env
    \<or> get_fee_payment_by_id d pid = None")
  case True
  with assms show ?thesis
    by (auto simp: simulate_blockchain_confirmations_def reject_after_exception_def
        split: if_splits)
next
  case False
  then obtain p where p: "get_fee_payment_by_id d pid = Some p" by auto
  with False assms have "evs = fst (confirm_loop env p pid required 1)"
    by (auto simp: simulate_blockchain_confirmations_def reject_after_exception_def
        split: if_splits prod.splits loop_end.splits)
  with loop_no_rejected[of pid env p pid required 1] show ?thesis by simp
qed







section \<open>Properties of the withdrawal gate and the address step\<close>

lemma token_state_not_empty: "ws_token ws = Some token \<Longrightarrow> ws \<noteq> empty_wstate"
  by (auto simp: empty_wstate_def)

text \<open>
On the address step, with a conversation about a token, an address of 20 to 100
  characters and a holding \<open>h\<close> of the token, the gate is called with the amount
  \<open>h\<close>, whatever amounts the conversation state carries; when the gate refuses, the
  reply shows the fee computed from \<open>h\<close>; when it succeeds, the portfolio is debited
  by \<open>h\<close> and the reply shows the amounts the gate returned.
\<close>

lemma address_input_reaches_gate:
  assumes "states u = Some ws" and "ws_token ws = Some token"
    and "20 \<le> length (py_strip addr)" and "length (py_strip addr) \<le> 100"
    and "portfolio d u token = Some h"
  shows "process_withdrawal_address_input d states chat u addr =
     (case atomic_create_verified_withdrawal d u ''crypto'' token h (py_strip addr) of
        (d', Refused reason explanation) \<Rightarrow>
          (d', states(u := None),
           [WithdrawalSecurityBlock reason explanation (h * (10 / 100))
              (get_fee_payment_token token)],
           [GateCall u ''crypto'' token h (py_strip addr)])
      | (d', Created wid fee fee_token net fee_txid) \<Rightarrow>
          (update_portfolio d' u token (- h) 0, states(u := None),
           [WithdrawalApproved wid token h fee fee_token net (py_strip addr) fee_txid],
           [GateCall u ''crypto'' token h (py_strip addr),
            UpdatePortfolioCall u token (- h) 0]))"
  using assms token_state_not_empty[OF assms(2)]
  by (simp add: process_withdrawal_address_input_def Let_def split: prod.splits withdrawal_result.splits)

lemma gate_with_verified_payment:
  assumes "get_user_verified_fee_payment d u (get_fee_payment_token token) = Some p"
    and "portfolio d u token = Some h"
  shows "atomic_create_verified_withdrawal d u wtype token h addr =
     (d\<lparr>withdrawals := withdrawals d @
          [\<lparr>wd_id = fresh_withdrawal_id d, wd_user_id = u, wd_asset = token,
            wd_gross_amount = h, wd_fee_amount = h * (10 / 100), wd_fee_asset = fp_token p,
            wd_fee_payment_id = fp_id p, wd_to_address = addr\<rparr>]\<rparr>,
      Created (fresh_withdrawal_id d) (h * (10 / 100)) (fp_token p) (h - h * (10 / 100))
        (fp_txid p))"
  using assms by (simp add: atomic_create_verified_withdrawal_def holding_def Let_def)

lemma gate_without_verified_payment:
  assumes "get_user_verified_fee_payment d u (get_fee_payment_token token) = None"
  shows "atomic_create_verified_withdrawal d u wtype token amount addr =
     (d, Refused ''no_verified_fee_payment''
           ''No verified fee payment found for this withdrawal'')"
  using assms by (simp add: atomic_create_verified_withdrawal_def)

lemma address_input_blocked:
  assumes "get_user_verified_fee_payment d u (get_fee_payment_token token) = None"
    and "conversation_about states u token"
    and "process_withdrawal_address_input d states chat u text = (d', states', replies, calls)"
  shows "d' = d \<and> \<not> list_ex is_approval replies \<and> conversation_about states' u token
     \<and> (calls \<noteq> [] \<longrightarrow>
          (\<exists>fee. replies = [WithdrawalSecurityBlock ''no_verified_fee_payment''
                    ''No verified fee payment found for this withdrawal'' fee
                    (get_fee_payment_token token)])
          \<and> (\<exists>amount a. calls = [GateCall u ''crypto'' token amount a]))"
proof (cases "states u")
  case None
  with assms show ?thesis by (simp add: process_withdrawal_address_input_def)
next
  case (Some ws)
  show ?thesis
  proof (cases "ws_token ws")
    case None
    with Some assms(3) show ?thesis
      by (auto simp: process_withdrawal_address_input_def conversation_about_def split: if_splits)
  next
    case tok: (Some t)
    with Some assms(2) have t: "t = token" by (simp add: conversation_about_def)
    from assms(3) Some tok t assms(2)
      gate_without_verified_payment[OF assms(1), of "''crypto''"]
    show ?thesis
      by (auto simp: process_withdrawal_address_input_def conversation_about_def Let_def
          split: if_splits option.splits)
  qed
qed

lemma callback_blocked:
  assumes "get_user_verified_fee_payment d u token = None"
    and "conversation_about states u token"
    and "enter_address_callback d states chat u token = (states', replies)"
  shows "\<not> list_ex is_approval replies \<and> conversation_about states' u token
     \<and> (map_option ws_fee_verified (states u) \<noteq> Some (Some True) \<longrightarrow>
          states' = states \<and> replies = [CallbackSecurityBlock])"
  using assms
  by (auto simp: enter_address_callback_def conversation_about_def Let_def
      split: if_splits option.splits)

lemma retry_blocked:
  assumes "get_user_verified_fee_payment d u (get_fee_payment_token token) = None"
    and "get_user_verified_fee_payment d u token = None"
  shows "conversation_about states u token \<Longrightarrow>
     fst (retry_address_entry d states chat u token acts) = d
     \<and> \<not> list_ex is_approval (snd (snd (retry_address_entry d states chat u token acts)))"
proof (induction acts arbitrary: states)
  case Nil
  then show ?case by simp
next
  case (Cons act acts)
  show ?case
  proof (cases act)
    case PressEnterAddress
    obtain states' rs where cb: "enter_address_callback d states chat u token = (states', rs)"
      by (cases "enter_address_callback d states chat u token")
    from callback_blocked[OF assms(2) Cons.prems cb]
    have "\<not> list_ex is_approval rs" "conversation_about states' u token" by simp_all
    with Cons.IH[of states'] cb PressEnterAddress show ?thesis
      by (auto split: prod.splits)
  next
    case (SendAddress msg)
    obtain d' states' rs calls where
      run: "process_withdrawal_address_input d states chat u msg = (d', states', rs, calls)"
      by (cases "process_withdrawal_address_input d states chat u msg") auto
    from address_input_blocked[OF assms(1) Cons.prems run]
    have "d' = d" "\<not> list_ex is_approval rs" "conversation_about states' u token" by simp_all
    with Cons.IH[of states'] run SendAddress show ?thesis
      by (auto split: prod.splits)
  qed
qed

text \<open>
C1. When the user has no verified, unconsumed fee payment for the token (under the
  fee asset of the token, which the gate looks up, and under the token itself, which
  the \<open>enter_address_\<close> button looks up), and the conversation of the user, if there is
  one, is about this token: the gate returns a rejection with the reason
  \<open>no_verified_fee_payment\<close> and leaves the store as it is; the address step leaves
  the store as it is, never approves, and shows that reason whenever it reaches the
  gate; the \<open>enter_address_\<close> button answers with the security block and changes
  nothing, unless the conversation already carries the mark \<open>fee_verified\<close>; and no
  sequence of presses of the button and of address messages changes the store or
  obtains an approval.
\<close>

theorem no_verified_fee_payment_blocks_withdrawal:
  assumes "get_user_verified_fee_payment d u (get_fee_payment_token token) = None"
    and "get_user_verified_fee_payment d u token = None"
    and "conversation_about states u token"
  shows "atomic_create_verified_withdrawal d u wtype token amount addr =
           (d, Refused ''no_verified_fee_payment''
                 ''No verified fee payment found for this withdrawal'')
     \<and> fst (process_withdrawal_address_input d states chat u text) = d
     \<and> \<not> list_ex is_approval (fst (snd (snd (process_withdrawal_address_input d states chat u text))))
     \<and> (snd (snd (snd (process_withdrawal_address_input d states chat u text))) \<noteq> [] \<longrightarrow>
          (\<exists>fee. fst (snd (snd (process_withdrawal_address_input d states chat u text))) =
             [WithdrawalSecurityBlock ''no_verified_fee_payment''
                ''No verified fee payment found for this withdrawal'' fee
                (get_fee_payment_token token)]))
     \<and> (map_option ws_fee_verified (states u) \<noteq> Some (Some True) \<longrightarrow>
          enter_address_callback d states chat u token = (states, [CallbackSecurityBlock]))
     \<and> fst (retry_address_entry d states chat u token acts) = d
     \<and> \<not> list_ex is_approval (snd (snd (retry_address_entry d states chat u token acts)))"
proof -
  obtain d' states' rs calls where
    run: "process_withdrawal_address_input d states chat u text = (d', states', rs, calls)"
    by (cases "process_withdrawal_address_input d states chat u text") auto
  obtain states'' rs' where cb: "enter_address_callback d states chat u token = (states'', rs')"
    by (cases "enter_address_callback d states chat u token")
  note a = address_input_blocked[OF assms(1) assms(3) run]
  note c = callback_blocked[OF assms(2) assms(3) cb]
  note r = retry_blocked[OF assms(1) assms(2) assms(3), of chat acts]
  note g = gate_without_verified_payment[OF assms(1), of wtype amount addr]
  from a c r g run cb show ?thesis by simp
qed

lemma btc_fee_token: "get_fee_payment_token ''BTC'' = ''BTC''"
  by (simp add: get_fee_payment_token_def)

lemma btc_no_verified_payment:
  "get_user_verified_fee_payment (btc_db Pending) 7 ''BTC'' = None"
  by (simp add: get_user_verified_fee_payment_def verified_unconsumed_def btc_db_def
      btc_payment_def)

lemma btc_verified_payment:
  "get_user_verified_fee_payment (btc_db Verified) 7 ''BTC'' = Some (btc_payment Verified)"
  by (simp add: get_user_verified_fee_payment_def verified_unconsumed_def consumed_def
      btc_db_def btc_payment_def)

lemma address_b34_stripped: "py_strip address_b34 = address_b34"
  by (simp add: py_strip_def py_isspace_def address_b34_def)

text \<open>
User 7 has a pending fee payment only, and retries the address step four times.
\<close>

theorem no_verified_fee_payment_blocks_withdrawal_witness:
  "atomic_create_verified_withdrawal (btc_db Pending) 7 ''crypto'' ''BTC'' 5 address_b34 =
     (btc_db Pending,
      Refused ''no_verified_fee_payment'' ''No verified fee payment found for this withdrawal'')
   \<and> fst (process_withdrawal_address_input (btc_db Pending)
            [7 \<mapsto> fee_paid_state ''BTC'' ''awaiting_txid''] 7 7 address_b34) = btc_db Pending
   \<and> enter_address_callback (btc_db Pending)
        [7 \<mapsto> fee_paid_state ''BTC'' ''awaiting_txid''] 7 7 ''BTC'' =
      ([7 \<mapsto> fee_paid_state ''BTC'' ''awaiting_txid''], [CallbackSecurityBlock])
   \<and> fst (retry_address_entry (btc_db Pending)
            [7 \<mapsto> fee_paid_state ''BTC'' ''awaiting_txid''] 7 7 ''BTC''
            [PressEnterAddress, SendAddress address_b34, PressEnterAddress,
             SendAddress address_b34]) = btc_db Pending"
proof -
  have n1: "get_user_verified_fee_payment (btc_db Pending) 7 (get_fee_payment_token ''BTC'')
      = None"
    by (simp add: btc_fee_token btc_no_verified_payment)
  have ab: "conversation_about [7 \<mapsto> fee_paid_state ''BTC'' ''awaiting_txid''] 7 ''BTC''"
    by (simp add: conversation_about_def fee_paid_state_def empty_wstate_def)
  have nf: "map_option ws_fee_verified
      ([7 \<mapsto> fee_paid_state ''BTC'' ''awaiting_txid''] (7::int)) \<noteq> Some (Some True)"
    by (simp add: fee_paid_state_def empty_wstate_def)
  from no_verified_fee_payment_blocks_withdrawal[OF n1 btc_no_verified_payment ab,
      of "''crypto''" 5 address_b34 7 address_b34
         "[PressEnterAddress, SendAddress address_b34, PressEnterAddress,
           SendAddress address_b34]"] nf
  show ?thesis by (simp del: retry_address_entry.simps)
qed

section \<open>Properties of interrupted and concurrent runs\<close>

lemma verified_payment_unconsumed:
  "get_user_verified_fee_payment d u t = Some p \<Longrightarrow>
   fp_id p \<notin> set (map wd_fee_payment_id (withdrawals d))"
  by (auto simp: get_user_verified_fee_payment_def find_Some_iff verified_unconsumed_def
      consumed_def)

text \<open>The gate and the debit, as modelled, meet their contracts.\<close>

lemma modelled_gate_meets_contract: "gate_contract atomic_create_verified_withdrawal"
  unfolding gate_contract_def
proof (intro allI)
  fix d u wt t a addr
  show "case atomic_create_verified_withdrawal d u wt t a addr of
          (d', Refused reason explanation) \<Rightarrow> d' = d
        | (d', Created wid fee fee_token net fee_txid) \<Rightarrow>
            (\<exists>w. withdrawals d' = withdrawals d @ [w] \<and> wd_id w = wid \<and> wd_user_id w = u
                 \<and> wd_asset w = t \<and> wd_gross_amount w = a
                 \<and> wd_fee_payment_id w \<notin> set (map wd_fee_payment_id (withdrawals d)))
            \<and> (\<forall>u' t'. (u', t') \<noteq> (u, t) \<longrightarrow> portfolio d' u' t' = portfolio d u' t')"
  proof (cases "get_user_verified_fee_payment d u (get_fee_payment_token t)")
    case None
    then show ?thesis by (simp add: atomic_create_verified_withdrawal_def)
  next
    case (Some p)
    from verified_payment_unconsumed[OF Some] Some show ?thesis
      by (simp add: atomic_create_verified_withdrawal_def Let_def)
  qed
qed


lemma gate_refusedD:
  assumes "gate_contract gate" and "gate d u wt t a addr = (d', Refused r m)"
  shows "d' = d"
  using assms(1)[unfolded gate_contract_def, THEN spec[where x=d], THEN spec[where x=u],
      THEN spec[where x=wt], THEN spec[where x=t], THEN spec[where x=a],
      THEN spec[where x=addr]] assms(2)
  by simp

lemma gate_createdD:
  assumes "gate_contract gate" and "gate d u wt t a addr = (d', Created wid fee ft net tx)"
  shows "(\<exists>w. withdrawals d' = withdrawals d @ [w] \<and> wd_id w = wid \<and> wd_user_id w = u
              \<and> wd_asset w = t \<and> wd_gross_amount w = a
              \<and> wd_fee_payment_id w \<notin> set (map wd_fee_payment_id (withdrawals d)))
         \<and> (\<forall>u' t'. (u', t') \<noteq> (u, t) \<longrightarrow> portfolio d' u' t' = portfolio d u' t')"
  using assms(1)[unfolded gate_contract_def, THEN spec[where x=d], THEN spec[where x=u],
      THEN spec[where x=wt], THEN spec[where x=t], THEN spec[where x=a],
      THEN spec[where x=addr]] assms(2)
  by simp


lemma debiting_gate_meets_contract: "gate_contract atomic_create_verified_withdrawal_debiting"
  unfolding gate_contract_def
proof (intro allI)
  fix d u wt t a addr
  obtain d' res where g: "atomic_create_verified_withdrawal d u wt t a addr = (d', res)"
    by (cases "atomic_create_verified_withdrawal d u wt t a addr")
  show "case atomic_create_verified_withdrawal_debiting d u wt t a addr of
          (d', Refused reason explanation) \<Rightarrow> d' = d
        | (d', Created wid fee fee_token net fee_txid) \<Rightarrow>
            (\<exists>w. withdrawals d' = withdrawals d @ [w] \<and> wd_id w = wid \<and> wd_user_id w = u
                 \<and> wd_asset w = t \<and> wd_gross_amount w = a
                 \<and> wd_fee_payment_id w \<notin> set (map wd_fee_payment_id (withdrawals d)))
            \<and> (\<forall>u' t'. (u', t') \<noteq> (u, t) \<longrightarrow> portfolio d' u' t' = portfolio d u' t')"
  proof (cases res)
    case (Refused r m)
    from gate_refusedD[OF modelled_gate_meets_contract g[unfolded Refused]] g Refused
    show ?thesis by (simp add: atomic_create_verified_withdrawal_debiting_def)
  next
    case (Created wid fee ft net tx)
    from gate_createdD[OF modelled_gate_meets_contract g[unfolded Created]] g Created
    show ?thesis
      by (simp add: atomic_create_verified_withdrawal_debiting_def update_portfolio_def)
  qed
qed





lemma apply_event_withdrawals [simp]: "withdrawals (apply_event d e) = withdrawals d"
  by (cases e)
    (simp_all add: update_fee_payment_confirmations_def mark_fee_payment_verified_def
      mark_fee_payment_rejected_def)

lemma apply_event_portfolio [simp]: "portfolio (apply_event d e) = portfolio d"
  by (cases e)
    (simp_all add: update_fee_payment_confirmations_def mark_fee_payment_verified_def
      mark_fee_payment_rejected_def)




text \<open>
An invocation that runs alone, step by step, changes the store as
  \<open>process_withdrawal_address_input\<close> does.
\<close>

lemma sequential_run_is_address_step:
  assumes "states u = Some ws" and "ws_token ws = Some token"
    and "20 \<le> length (py_strip addr)" and "length (py_strip addr) \<le> 100"
  shows "sys_db (run_schedule atomic_create_verified_withdrawal update_portfolio
           (initial_system d
              [\<lparr>inv_user = u, inv_token = token, inv_address = py_strip addr,
                inv_phase = AtStart\<rparr>])
           [Advance 0, Advance 0, Advance 0])
         = fst (process_withdrawal_address_input d states chat u addr)"
proof -
  from assms(2) have ne: "ws \<noteq> empty_wstate" by (auto simp: empty_wstate_def)
  show ?thesis
  proof (cases "portfolio d u token")
    case None
    with assms ne show ?thesis
      by (simp add: run_schedule_def initial_system_def step_invocation_def
          process_withdrawal_address_input_def)
  next
    case (Some h)
    obtain dg res where g:
      "atomic_create_verified_withdrawal d u ''crypto'' token h (py_strip addr) = (dg, res)"
      by (cases "atomic_create_verified_withdrawal d u ''crypto'' token h (py_strip addr)")
    with assms ne Some show ?thesis
      by (cases res)
        (simp_all add: run_schedule_def initial_system_def step_invocation_def
          process_withdrawal_address_input_def Let_def)
  qed
qed







text \<open>
  Two invocations that both read the holding before either debits it, with a verified
  fee payment for each: the holding of 5 is withdrawn twice.
\<close>

lemma concurrent_invocations_withdraw_twice:
  "map wd_fee_payment_id
     (withdrawals (sys_db (run_schedule atomic_create_verified_withdrawal update_portfolio
        (initial_system two_payments_db two_invocations) interleaved))) = [2, 1]
   \<and> map wd_gross_amount
     (withdrawals (sys_db (run_schedule atomic_create_verified_withdrawal update_portfolio
        (initial_system two_payments_db two_invocations) interleaved))) = [5, 5]
   \<and> portfolio (sys_db (run_schedule atomic_create_verified_withdrawal update_portfolio
        (initial_system two_payments_db two_invocations) interleaved)) 7 ''BTC'' = Some (- 5)"
  by (simp add: run_schedule_def initial_system_def step_invocation_def btc_invocation_def
      two_invocations_def interleaved_def two_payments_db_def btc_payment_def
      atomic_create_verified_withdrawal_def get_user_verified_fee_payment_def
      verified_unconsumed_def consumed_def get_fee_payment_token_def holding_def
      fresh_withdrawal_id_def update_portfolio_def Let_def)

end
